theory Spec2Isabelle
  imports Main
begin

section \<open>The ServiceAccount controller of provider-confluent\<close>

text \<open>
  A shallow embedding of \<^verbatim>\<open>internal/controller/serviceaccount\<close>: the connector
  (\<^verbatim>\<open>Connect\<close>, \<^verbatim>\<open>createAndConvertClientFunc\<close>) and the external client
  (\<^verbatim>\<open>Observe\<close>, \<^verbatim>\<open>Create\<close>, \<^verbatim>\<open>Update\<close>, \<^verbatim>\<open>Delete\<close>). Pointers that the
  Go code mutates (the managed resource \<^verbatim>\<open>cr\<close>) are passed in and returned; the
  Kubernetes store and the remote Confluent API are fields of one explicit
  \<open>world\<close>, which every operation takes and returns.
\<close>

subsection \<open>Errors\<close>

text \<open>
  Go's \<^verbatim>\<open>error\<close> is one type for every collaborator. \<open>New\<close> is \<^verbatim>\<open>errors.New\<close>,
  \<open>Wrap\<close> is \<^verbatim>\<open>errors.Wrap\<close>. \<open>NotFound\<close> is the error of a lookup that matches
  no remote object and \<open>RemoteObjectMissing\<close> the error of an adopted object that
  vanished (both are named by the specification, sections 4.2 and 7).
\<close>

datatype error = New string | Wrap error string | NotFound | RemoteObjectMissing

definition errNotMyType :: string where
  "errNotMyType = ''managed resource is not a ServiceAccount custom resource''"

definition errTrackPCUsage :: string where
  "errTrackPCUsage = ''cannot track ProviderConfig usage''"

definition errGetPC :: string where
  "errGetPC = ''cannot get ProviderConfig''"

definition errGetCreds :: string where
  "errGetCreds = ''cannot get credentials''"

definition errNewClient :: string where
  "errNewClient = ''cannot create new Service''"

definition errAuthCredentials :: string where
  "errAuthCredentials = ''invalid client credentials''"

subsection \<open>Conditions\<close>

text \<open>
  The conditions of crossplane-runtime (\<^verbatim>\<open>xpv1\<close>), without their timestamps.
  \<^verbatim>\<open>SetConditions\<close> overwrites the condition of the same type, or appends the
  condition when the type is new; \<^verbatim>\<open>GetCondition\<close> reads the condition of a type.
\<close>

datatype ConditionType = TypeReady | TypeSynced

datatype ConditionStatus = ConditionTrue | ConditionFalse | ConditionUnknown

datatype ConditionReason = ReasonAvailable | ReasonCreating | ReasonDeleting

record Condition =
  cType :: ConditionType
  cStatus :: ConditionStatus
  cReason :: ConditionReason

definition Available :: Condition where
  "Available = \<lparr>cType = TypeReady, cStatus = ConditionTrue, cReason = ReasonAvailable\<rparr>"

definition Creating :: Condition where
  "Creating = \<lparr>cType = TypeReady, cStatus = ConditionFalse, cReason = ReasonCreating\<rparr>"

definition Deleting :: Condition where
  "Deleting = \<lparr>cType = TypeReady, cStatus = ConditionFalse, cReason = ReasonDeleting\<rparr>"

definition SetConditions :: "Condition \<Rightarrow> Condition list \<Rightarrow> Condition list" where
  "SetConditions c cs =
     (if list_ex (\<lambda>x. cType x = cType c) cs
      then map (\<lambda>x. if cType x = cType c then c else x) cs
      else cs @ [c])"

definition GetCondition :: "ConditionType \<Rightarrow> Condition list \<Rightarrow> Condition option" where
  "GetCondition ct cs = find (\<lambda>x. cType x = ct) cs"

subsection \<open>The managed resource\<close>

text \<open>
  The fields of \<^verbatim>\<open>v1alpha1.ServiceAccount\<close> that the controller reads or writes.
  \<open>ExternalName\<close> is the annotation read by \<^verbatim>\<open>meta.GetExternalName\<close>, which is
  the empty string when the annotation is absent. \<open>ProviderConfigRef\<close> is the
  name in \<^verbatim>\<open>cr.GetProviderConfigReference()\<close>. \<open>OtherCR\<close> is a managed
  resource of any other kind, for which the type assertion
  to \<^verbatim>\<open>*v1alpha1.ServiceAccount\<close> fails.
\<close>

record ServiceAccount =
  Name :: string
  ExternalName :: string
  ProviderConfigRef :: string
  Description :: string
  AtProviderID :: string
  Conditions :: "Condition list"

datatype managed = ServiceAccountCR ServiceAccount | OtherCR string

definition SetExternalName :: "ServiceAccount \<Rightarrow> string \<Rightarrow> ServiceAccount" where
  "SetExternalName cr n = cr\<lparr>ExternalName := n\<rparr>"

subsection \<open>The world: remote API and Kubernetes store\<close>

text \<open>
  \<open>snapshot\<close> is the record that the remote client returns for a service account.
  \<open>call\<close> is one call to the remote API; the world keeps them in order.
\<close>

record snapshot =
  sa_id :: string
  sa_name :: string
  sa_description :: string

definition zero_snapshot :: snapshot where
  "zero_snapshot = \<lparr>sa_id = [], sa_name = [], sa_description = []\<rparr>"

datatype call =
    AuthenticateCall string string
  | ByNameCall string
  | CreateCall string string
  | UpdateCall string string
  | DeleteCall string

fun is_create :: "call \<Rightarrow> bool" where
  "is_create (CreateCall n d) = True"
| "is_create c = False"

fun is_mutation :: "call \<Rightarrow> bool" where
  "is_mutation (CreateCall n d) = True"
| "is_mutation (UpdateCall i d) = True"
| "is_mutation (DeleteCall i) = True"
| "is_mutation c = False"

text \<open>
  \<open>accounts\<close> are the service accounts that exist remotely. The \<open>_fault\<close> and
  \<open>_reply\<close> fields are what the remote API answers to the next calls: an injected
  failure for a lookup, an update or a delete; the identifier assigned by a
  create, or its rejection; the answer to an authentication. \<open>stored\<close> is the copy
  of the resource that the Kubernetes API server holds, and \<open>kube_faults\<close> the
  outcomes of the coming writes to it, in order (none left: the write succeeds).
\<close>

record world =
  accounts :: "snapshot list"
  auth_reply :: "string \<Rightarrow> string \<Rightarrow> error option"
  lookup_fault :: "error option"
  create_reply :: "error + string"
  update_fault :: "error option"
  delete_fault :: "error option"
  calls :: "call list"
  stored :: ServiceAccount
  kube_faults :: "error option list"

definition next_kube_fault :: "world \<Rightarrow> error option" where
  "next_kube_fault w = (case kube_faults w of [] \<Rightarrow> None | f # fs \<Rightarrow> f)"

text \<open>
  The resource has a status subresource (the code writes it with
  \<^verbatim>\<open>c.kube.Status().Update\<close>, and the sibling type in \<^verbatim>\<open>acl_types.go\<close> carries the
  marker \<^verbatim>\<open>+kubebuilder:subresource:status\<close>). So \<^verbatim>\<open>c.kube.Update(ctx, cr)\<close> stores
  metadata and spec and leaves the stored status alone, and the client then
  writes the server's copy back into \<^verbatim>\<open>cr\<close>: metadata and spec as sent, the
  status as it is stored. A status that was set in memory and not yet written
  with \<^verbatim>\<open>Status().Update\<close> is lost by it. A failed write leaves the stored copy
  and \<^verbatim>\<open>cr\<close> as they were.
\<close>

definition kube_Update :: "world \<Rightarrow> ServiceAccount \<Rightarrow> error option \<times> ServiceAccount \<times> world" where
  "kube_Update w cr =
     (let w1 = w\<lparr>kube_faults := tl (kube_faults w)\<rparr> in
      case next_kube_fault w of
        Some e \<Rightarrow> (Some e, cr, w1)
      | None \<Rightarrow>
          (None,
           cr\<lparr>AtProviderID := AtProviderID (stored w), Conditions := Conditions (stored w)\<rparr>,
           w1\<lparr>stored := (stored w)\<lparr>Name := Name cr, ExternalName := ExternalName cr,
                   ProviderConfigRef := ProviderConfigRef cr, Description := Description cr\<rparr>\<rparr>))"

text \<open>
  \<^verbatim>\<open>c.kube.Status().Update(ctx, cr)\<close> stores the status of \<^verbatim>\<open>cr\<close>. The server's copy
  has that status, so the status in memory stays; the copy differs from \<^verbatim>\<open>cr\<close>
  at most in metadata and spec, which the operations change only at
  \<^verbatim>\<open>meta.SetExternalName\<close>, right before \<^verbatim>\<open>c.kube.Update\<close> stores them. The
  resource in memory is therefore taken to stay as it is.
\<close>

definition kube_Status_Update :: "world \<Rightarrow> ServiceAccount \<Rightarrow> error option \<times> world" where
  "kube_Status_Update w cr =
     (let w1 = w\<lparr>kube_faults := tl (kube_faults w)\<rparr> in
      case next_kube_fault w of
        Some e \<Rightarrow> (Some e, w1)
      | None \<Rightarrow> (None, w1\<lparr>stored := (stored w)\<lparr>AtProviderID := AtProviderID cr,
                   Conditions := Conditions cr\<rparr>\<rparr>))"

subsection \<open>The remote client\<close>

text \<open>
  The client \<^verbatim>\<open>internal/clients/serviceaccount\<close> (\<^verbatim>\<open>IClient\<close>) and
  \<^verbatim>\<open>clients.NewClient().Authenticate\<close> are not among the sources; section 4.2 of
  the specification gives their contract. Every call is added to the call log.
  Like the Go methods, a lookup and a create return a value together with an
  error.
\<close>

text \<open>
  Modelled from the spec: \<^verbatim>\<open>Authenticate\<close> is missing. Section 4.1: the identity and
  the secret are authenticated against the remote system, which accepts or
  rejects them.
\<close>

definition Authenticate :: "world \<Rightarrow> string \<Rightarrow> string \<Rightarrow> error option \<times> world" where
  "Authenticate w ident secret =
     (auth_reply w ident secret, w\<lparr>calls := calls w @ [AuthenticateCall ident secret]\<rparr>)"

text \<open>
  Modelled from the spec: \<^verbatim>\<open>ServiceAccountByName\<close> is missing. Section 4.2,
  \<^verbatim>\<open>LookupByName\<close>: fails with \<open>NotFound\<close> when no remote object matches the name;
  any other failure is a lookup error.
\<close>

definition ServiceAccountByName :: "world \<Rightarrow> string \<Rightarrow> (snapshot \<times> error option) \<times> world" where
  "ServiceAccountByName w n =
     (let w1 = w\<lparr>calls := calls w @ [ByNameCall n]\<rparr> in
      case lookup_fault w of
        Some e \<Rightarrow> ((zero_snapshot, Some e), w1)
      | None \<Rightarrow>
          (case find (\<lambda>a. sa_name a = n) (accounts w) of
             None \<Rightarrow> ((zero_snapshot, Some NotFound), w1)
           | Some a \<Rightarrow> ((a, None), w1)))"

text \<open>
  Modelled from the spec: \<^verbatim>\<open>ServiceAccountCreate\<close> is missing. Section 4.2,
  \<^verbatim>\<open>Create\<close>: returns the snapshot of the created object, with the identifier that
  the remote system assigns, or fails when the remote system rejects it.
\<close>

definition ServiceAccountCreate :: "world \<Rightarrow> string \<Rightarrow> string \<Rightarrow> (snapshot \<times> error option) \<times> world" where
  "ServiceAccountCreate w n d =
     (let w1 = w\<lparr>calls := calls w @ [CreateCall n d]\<rparr> in
      case create_reply w of
        Inl e \<Rightarrow> ((zero_snapshot, Some e), w1)
      | Inr rid \<Rightarrow>
          (let a = \<lparr>sa_id = rid, sa_name = n, sa_description = d\<rparr>
           in ((a, None), w1\<lparr>accounts := accounts w @ [a]\<rparr>)))"

text \<open>
  Modelled from the spec: \<^verbatim>\<open>ServiceAccountUpdate\<close> is missing. Section 4.2,
  \<^verbatim>\<open>Update\<close>: sets the description of the object of the identifier, or fails.
\<close>

definition ServiceAccountUpdate :: "world \<Rightarrow> string \<Rightarrow> string \<Rightarrow> error option \<times> world" where
  "ServiceAccountUpdate w i d =
     (let w1 = w\<lparr>calls := calls w @ [UpdateCall i d]\<rparr> in
      case update_fault w of
        Some e \<Rightarrow> (Some e, w1)
      | None \<Rightarrow>
          (None, w1\<lparr>accounts :=
             map (\<lambda>a. if sa_id a = i then a\<lparr>sa_description := d\<rparr> else a) (accounts w)\<rparr>))"

text \<open>
  Modelled from the spec: \<^verbatim>\<open>ServiceAccountDelete\<close> is missing. Section 4.2,
  \<^verbatim>\<open>Delete\<close>: removes the object of the identifier, or fails; deleting an object
  that is already absent is a success.
\<close>

definition ServiceAccountDelete :: "world \<Rightarrow> string \<Rightarrow> error option \<times> world" where
  "ServiceAccountDelete w i =
     (let w1 = w\<lparr>calls := calls w @ [DeleteCall i]\<rparr> in
      case delete_fault w of
        Some e \<Rightarrow> (Some e, w1)
      | None \<Rightarrow> (None, w1\<lparr>accounts := filter (\<lambda>a. sa_id a \<noteq> i) (accounts w)\<rparr>))"

subsection \<open>The helpers of the controller\<close>

text \<open>
  Modelled from the spec: \<^verbatim>\<open>ExternalNameHelper\<close> is called by \<^verbatim>\<open>Observe\<close> and
  \<^verbatim>\<open>Create\<close> and is not among the sources. Section 4.3, step 2: a resource that
  carries an external name is addressed by it; otherwise the candidate name is
  derived from the declared identity (the resource's name). The second
  component tells whether the external name exists.
\<close>

definition ExternalNameHelper :: "ServiceAccount \<Rightarrow> string \<times> bool" where
  "ExternalNameHelper cr =
     (if ExternalName cr \<noteq> [] then (ExternalName cr, True) else (Name cr, False))"

text \<open>
  Modelled from the spec: \<^verbatim>\<open>ObserveCreateResource\<close> is called by \<^verbatim>\<open>Observe\<close> and
  is not among the sources. Section 4.3, step 3, keyed on the external name and
  the result of the lookup: \<open>NotFound\<close> without an external name is a creation;
  \<open>NotFound\<close> with an external name is the error \<open>RemoteObjectMissing\<close>; any other
  lookup error ends the tick; a found object is never created anew, with an
  external name (it goes on to the drift comparison) or without one (an import
  adopts the found object without creating a new one). By this table no creation
  is asked for a resource that has an external name.
\<close>

definition ObserveCreateResource :: "ServiceAccount \<Rightarrow> error option \<Rightarrow> bool \<times> error option" where
  "ObserveCreateResource cr err =
     (case err of
        None \<Rightarrow> (False, None)
      | Some e \<Rightarrow>
          (if e = NotFound
           then (if ExternalName cr = [] then (True, None) else (False, Some RemoteObjectMissing))
           else (False, Some e)))"

text \<open>
  Modelled from the spec: \<^verbatim>\<open>ObserveUpdateResource\<close> is called by \<^verbatim>\<open>Observe\<close> and
  is not among the sources. Section 4.3: the drift comparison is a field-by-field
  equality check between the declared spec and the mirrored fields of the
  snapshot; a service account declares its description.
\<close>

definition ObserveUpdateResource :: "ServiceAccount \<Rightarrow> snapshot \<Rightarrow> bool" where
  "ObserveUpdateResource cr observe = (Description cr \<noteq> sa_description observe)"

text \<open>
  Modelled from the spec: \<^verbatim>\<open>CreateResourceIsImport\<close> is called by \<^verbatim>\<open>Create\<close> and
  is not among the sources. Sections 4.3 and 7: a successful lookup is an import;
  \<open>NotFound\<close> is not an error and leads to a creation; any other lookup error
  ends the tick.
\<close>

definition CreateResourceIsImport :: "error option \<Rightarrow> bool \<times> error option" where
  "CreateResourceIsImport err =
     (case err of
        None \<Rightarrow> (True, None)
      | Some e \<Rightarrow> (if e = NotFound then (False, None) else (False, Some e)))"

subsection \<open>The connector\<close>

record APICredentials =
  Identifier :: string
  Key :: string
  Secret :: string

definition zero_APICredentials :: APICredentials where
  "zero_APICredentials = \<lparr>Identifier = [], Key = [], Secret = []\<rparr>"

record ProviderConfig =
  Credentials :: string
  pcAPICredentials :: "APICredentials list"

text \<open>The value of \<^verbatim>\<open>serviceaccount.NewClient(srConfig)\<close>: a client holding its configuration.\<close>

record service =
  svcAPICredentials :: APICredentials

text \<open>\<^verbatim>\<open>strings.Split(s, sep)\<close> for a separator of one character.\<close>

fun strings_Split :: "string \<Rightarrow> char \<Rightarrow> string list" where
  "strings_Split [] c = [[]]"
| "strings_Split (x # xs) c =
     (if x = c then [] # strings_Split xs c
      else (case strings_Split xs c of
              [] \<Rightarrow> [[x]]
            | p # ps \<Rightarrow> (x # p) # ps))"

definition createAndConvertClientFunc ::
    "string \<Rightarrow> APICredentials \<Rightarrow> world \<Rightarrow> (error + service) \<times> world" where
  "createAndConvertClientFunc clientCreds apiCreds w =
     (let credParts = strings_Split clientCreds (CHR '':'') in
      if length credParts \<noteq> 2 then (Inl (New errAuthCredentials), w)
      else
        (case Authenticate w (credParts ! 0) (credParts ! 1) of
           (Some authErr, w1) \<Rightarrow> (Inl authErr, w1)
         | (None, w1) \<Rightarrow> (Inr \<lparr>svcAPICredentials = apiCreds\<rparr>, w1)))"

text \<open>
  The collaborators of \<^verbatim>\<open>connector\<close>: \<open>Track\<close> is \<^verbatim>\<open>c.usage.Track\<close>, \<open>kube_Get\<close> is
  \<^verbatim>\<open>c.kube.Get\<close> of a ProviderConfig by name, \<open>CommonCredentialExtractor\<close> resolves
  the credentials of a ProviderConfig, \<open>newServiceFn\<close> is the field of that name
  and \<open>SchemeIdentifier\<close> the constant \<^verbatim>\<open>v1alpha1.SchemeGroupVersion.Identifier()\<close>.
\<close>

record connector =
  Track :: "managed \<Rightarrow> error option"
  kube_Get :: "string \<Rightarrow> error + ProviderConfig"
  CommonCredentialExtractor :: "string \<Rightarrow> error + string"
  newServiceFn :: "string \<Rightarrow> APICredentials \<Rightarrow> world \<Rightarrow> (error + service) \<times> world"
  SchemeIdentifier :: string

definition Connect :: "connector \<Rightarrow> world \<Rightarrow> managed \<Rightarrow> (error + service) \<times> world" where
  "Connect c w mg =
     (case mg of
        OtherCR k \<Rightarrow> (Inl (New errNotMyType), w)
      | ServiceAccountCR cr \<Rightarrow>
          (case Track c mg of
             Some err \<Rightarrow> (Inl (Wrap err errTrackPCUsage), w)
           | None \<Rightarrow>
               (case kube_Get c (ProviderConfigRef cr) of
                  Inl err \<Rightarrow> (Inl (Wrap err errGetPC), w)
                | Inr pc \<Rightarrow>
                    (case CommonCredentialExtractor c (Credentials pc) of
                       Inl err \<Rightarrow> (Inl (Wrap err errGetCreds), w)
                     | Inr clientCredentialData \<Rightarrow>
                         (let apiCredentials =
                                (case find (\<lambda>v. Identifier v = SchemeIdentifier c)
                                        (pcAPICredentials pc) of
                                   None \<Rightarrow> zero_APICredentials
                                 | Some v \<Rightarrow> v)
                          in case newServiceFn c clientCredentialData apiCredentials w of
                               (Inl err, w1) \<Rightarrow> (Inl (Wrap err errNewClient), w1)
                             | (Inr svc, w1) \<Rightarrow> (Inr svc, w1))))))"

subsection \<open>The external client\<close>

text \<open>
  \<^verbatim>\<open>managed.ExternalObservation\<close>, without its connection details, which are
  empty throughout. \<^verbatim>\<open>managed.ExternalCreation\<close> and \<^verbatim>\<open>managed.ExternalUpdate\<close>
  hold nothing else, so \<^verbatim>\<open>Create\<close>, \<^verbatim>\<open>Update\<close> and \<^verbatim>\<open>Delete\<close> return their error
  alone. Each operation also returns the resource, which the Go code changes
  through the pointer, and the world.
\<close>

record ExternalObservation =
  ResourceExists :: bool
  ResourceUpToDate :: bool

definition Observe :: "world \<Rightarrow> managed \<Rightarrow> (error + ExternalObservation) \<times> managed \<times> world" where
  "Observe w mg =
     (case mg of
        OtherCR k \<Rightarrow> (Inl (New errNotMyType), mg, w)
      | ServiceAccountCR cr \<Rightarrow>
          (case ServiceAccountByName w (fst (ExternalNameHelper cr)) of
             ((observe, err), w1) \<Rightarrow>
               (case ObserveCreateResource cr err of
                  (create, Some err2) \<Rightarrow> (Inl err2, mg, w1)
                | (create, None) \<Rightarrow>
                    if create
                    then (Inr \<lparr>ResourceExists = False, ResourceUpToDate = False\<rparr>, mg, w1)
                    else if ObserveUpdateResource cr observe
                    then (Inr \<lparr>ResourceExists = True, ResourceUpToDate = False\<rparr>, mg, w1)
                    else
                      (let cr1 = cr\<lparr>Conditions := SetConditions Available (Conditions cr)\<rparr> in
                       case kube_Status_Update w1 cr1 of
                         (Some err3, w2) \<Rightarrow> (Inl err3, ServiceAccountCR cr1, w2)
                       | (None, w2) \<Rightarrow>
                           (Inr \<lparr>ResourceExists = True, ResourceUpToDate = True\<rparr>,
                            ServiceAccountCR cr1, w2)))))"

text \<open>
  \<^verbatim>\<open>Create\<close>, in its three stages. \<open>Create_lookup\<close> is the block
  \<^verbatim>\<open>if exists { ... }\<close>: it returns an error, or \<^verbatim>\<open>createIsImport\<close> with the
  resource. \<open>Create_remote\<close> is the block \<^verbatim>\<open>if !createIsImport { ... }\<close>.
  \<open>Create_persist\<close> is the rest: the external name and the two writes, the
  second one of the resource as the first one left it in memory.
\<close>

definition Create_lookup ::
    "world \<Rightarrow> ServiceAccount \<Rightarrow> string \<Rightarrow> bool \<Rightarrow> (error + bool) \<times> ServiceAccount \<times> world" where
  "Create_lookup w cr n exists =
     (if exists
      then (case ServiceAccountByName w n of
              ((observe, err), w1) \<Rightarrow>
                (case CreateResourceIsImport err of
                   (createIsImport, Some err2) \<Rightarrow> (Inl err2, cr, w1)
                 | (createIsImport, None) \<Rightarrow>
                     if createIsImport
                     then (Inr True, cr\<lparr>AtProviderID := sa_id observe\<rparr>, w1)
                     else (Inr False, cr, w1)))
      else (Inr False, cr, w))"

definition Create_remote ::
    "world \<Rightarrow> ServiceAccount \<Rightarrow> string \<Rightarrow> bool \<Rightarrow> error option \<times> ServiceAccount \<times> world" where
  "Create_remote w cr n createIsImport =
     (if \<not> createIsImport
      then (case ServiceAccountCreate w n (Description cr) of
              ((out, Some err), w1) \<Rightarrow> (Some err, cr, w1)
            | ((out, None), w1) \<Rightarrow> (None, cr\<lparr>AtProviderID := sa_id out\<rparr>, w1))
      else (None, cr, w))"

definition Create_persist ::
    "world \<Rightarrow> ServiceAccount \<Rightarrow> string \<Rightarrow> error option \<times> ServiceAccount \<times> world" where
  "Create_persist w cr n =
     (let cr1 = SetExternalName cr n in
      case kube_Update w cr1 of
        (Some err, cr2, w1) \<Rightarrow> (Some err, cr2, w1)
      | (None, cr2, w1) \<Rightarrow>
          (case kube_Status_Update w1 cr2 of
             (Some err, w2) \<Rightarrow> (Some err, cr2, w2)
           | (None, w2) \<Rightarrow> (None, cr2, w2)))"

definition Create :: "world \<Rightarrow> managed \<Rightarrow> error option \<times> managed \<times> world" where
  "Create w mg =
     (case mg of
        OtherCR k \<Rightarrow> (Some (New errNotMyType), mg, w)
      | ServiceAccountCR cr \<Rightarrow>
          (let cr1 = cr\<lparr>Conditions := SetConditions Creating (Conditions cr)\<rparr> in
           case kube_Status_Update w cr1 of
             (Some err, w1) \<Rightarrow> (Some err, ServiceAccountCR cr1, w1)
           | (None, w1) \<Rightarrow>
               (case ExternalNameHelper cr1 of
                  (n, exists) \<Rightarrow>
                    (case Create_lookup w1 cr1 n exists of
                       (Inl err, cr2, w2) \<Rightarrow> (Some err, ServiceAccountCR cr2, w2)
                     | (Inr createIsImport, cr2, w2) \<Rightarrow>
                         (case Create_remote w2 cr2 n createIsImport of
                            (Some err, cr3, w3) \<Rightarrow> (Some err, ServiceAccountCR cr3, w3)
                          | (None, cr3, w3) \<Rightarrow>
                              (case Create_persist w3 cr3 n of
                                 (r, cr4, w4) \<Rightarrow> (r, ServiceAccountCR cr4, w4)))))))"

definition Update :: "world \<Rightarrow> managed \<Rightarrow> error option \<times> managed \<times> world" where
  "Update w mg =
     (case mg of
        OtherCR k \<Rightarrow> (Some (New errNotMyType), mg, w)
      | ServiceAccountCR cr \<Rightarrow>
          (case ServiceAccountUpdate w (AtProviderID cr) (Description cr) of
             (r, w1) \<Rightarrow> (r, mg, w1)))"

definition Delete :: "world \<Rightarrow> managed \<Rightarrow> error option \<times> managed \<times> world" where
  "Delete w mg =
     (case mg of
        OtherCR k \<Rightarrow> (Some (New errNotMyType), mg, w)
      | ServiceAccountCR cr \<Rightarrow>
          (let cr1 = cr\<lparr>Conditions := SetConditions Deleting (Conditions cr)\<rparr> in
           case kube_Status_Update w cr1 of
             (Some err, w1) \<Rightarrow> (Some err, ServiceAccountCR cr1, w1)
           | (None, w1) \<Rightarrow>
               (case ServiceAccountDelete w1 (AtProviderID cr1) of
                  (r, w2) \<Rightarrow> (r, ServiceAccountCR cr1, w2))))"

subsection \<open>One reconciliation tick\<close>

text \<open>
  Modelled from the spec: the driver that sequences the operations is the managed
  reconciler of crossplane-runtime, which is not part of this repository.
  Section 4.3, steps 3 and 4: observe, then act on the observation: create what
  does not exist, update what is not up to date, and do nothing otherwise; an
  error ends the tick.
\<close>

definition Reconcile :: "world \<Rightarrow> managed \<Rightarrow> error option \<times> managed \<times> world" where
  "Reconcile w mg =
     (case Observe w mg of
        (Inl err, mg1, w1) \<Rightarrow> (Some err, mg1, w1)
      | (Inr observation, mg1, w1) \<Rightarrow>
          if \<not> ResourceExists observation then Create w1 mg1
          else if \<not> ResourceUpToDate observation then Update w1 mg1
          else (None, mg1, w1))"

subsection \<open>Reading the outcome, repeated ticks, and a concrete scenario\<close>

text \<open>
  \<open>Ready\<close> reads the condition of type Ready of a resource. \<open>Reconcile_n\<close> runs
  \<open>n\<close> ticks one after the other, each on the resource as the tick before
  left it, and collects their results.
\<close>

definition Ready :: "managed \<Rightarrow> Condition option" where
  "Ready mg = (case mg of
                 ServiceAccountCR cr \<Rightarrow> GetCondition TypeReady (Conditions cr)
               | OtherCR k \<Rightarrow> None)"

primrec Reconcile_n :: "nat \<Rightarrow> world \<Rightarrow> managed \<Rightarrow> error option list \<times> managed \<times> world" where
  "Reconcile_n 0 w mg = ([], mg, w)"
| "Reconcile_n (Suc n) w mg =
     (case Reconcile w mg of
        (r, mg1, w1) \<Rightarrow>
          (case Reconcile_n n w1 mg1 of
             (rs, mg2, w2) \<Rightarrow> (r # rs, mg2, w2)))"

text \<open>
  The scenario of section 8 of the specification: the resource \<^verbatim>\<open>svc-1\<close> with the
  description \<^verbatim>\<open>payments\<close> and no external name, a remote API without accounts
  that accepts every call, and a store that accepts every write.
  \<open>example_account\<close> is a remote account of the same name and description.
\<close>

definition example_cr :: ServiceAccount where
  "example_cr = \<lparr>Name = ''svc-1'', ExternalName = [], ProviderConfigRef = ''default'',
     Description = ''payments'', AtProviderID = [], Conditions = []\<rparr>"

definition example_world :: world where
  "example_world = \<lparr>accounts = [], auth_reply = (\<lambda>i s. None), lookup_fault = None,
     create_reply = Inr ''sa-1001'', update_fault = None, delete_fault = None, calls = [],
     stored = example_cr, kube_faults = []\<rparr>"

definition example_account :: snapshot where
  "example_account = \<lparr>sa_id = ''sa-7'', sa_name = ''svc-1'', sa_description = ''payments''\<rparr>"

definition example_connector :: connector where
  "example_connector = \<lparr>Track = (\<lambda>mg. None),
     kube_Get = (\<lambda>n. Inr \<lparr>Credentials = ''creds'', pcAPICredentials = []\<rparr>),
     CommonCredentialExtractor = (\<lambda>s. Inr ''user@example.com:hunter2''),
     newServiceFn = createAndConvertClientFunc,
     SchemeIdentifier = ''serviceaccount''\<rparr>"

section \<open>Auxiliary facts\<close>

lemmas client_defs = ServiceAccountByName_def ServiceAccountCreate_def ServiceAccountUpdate_def
  ServiceAccountDelete_def Authenticate_def zero_snapshot_def

lemmas kube_defs = kube_Update_def kube_Status_Update_def next_kube_fault_def

lemmas helper_defs = ExternalNameHelper_def ObserveCreateResource_def ObserveUpdateResource_def
  CreateResourceIsImport_def SetExternalName_def

lemmas op_defs = Reconcile_def Observe_def Create_def Create_lookup_def Create_remote_def
  Create_persist_def Update_def Delete_def

lemmas condition_defs = SetConditions_def GetCondition_def Available_def Creating_def
  Deleting_def Ready_def

lemmas example_defs = example_cr_def example_world_def example_account_def

text \<open>
  The condition that was set last is the one read back.
\<close>

lemma GetCondition_SetConditions:
  "GetCondition (cType c) (SetConditions c cs) = Some c"
proof (induction cs)
  case Nil
  show ?case by (simp add: GetCondition_def SetConditions_def)
next
  case (Cons x xs)
  then show ?case
    by (auto simp: GetCondition_def SetConditions_def list_ex_iff split: if_splits)
qed

text \<open>
  \<^verbatim>\<open>strings.Split\<close> returns one part more than there are separators.
\<close>

lemma length_strings_Split: "length (strings_Split s c) = Suc (count_list s c)"
  by (induction s) (auto split: list.splits)

text \<open>
  A lookup only adds itself to the call log, and its answer depends on the remote
  accounts and the injected fault alone.
\<close>

lemma ByName_world: "snd (ServiceAccountByName w n) = w\<lparr>calls := calls w @ [ByNameCall n]\<rparr>"
  by (simp add: ServiceAccountByName_def Let_def split: option.splits)

lemma ByName_frame:
  assumes "accounts w' = accounts w" and "lookup_fault w' = lookup_fault w"
  shows "fst (ServiceAccountByName w' n) = fst (ServiceAccountByName w n)"
  using assms by (simp add: ServiceAccountByName_def Let_def split: option.splits)

text \<open>
  One tick on a resource whose remote object is found and has the declared
  description: the lookup is the only remote call, the condition \<open>Available\<close> is
  set, and the result of the tick is the result of the status write.
\<close>

lemma found_tick:
  assumes "fst (ServiceAccountByName w (fst (ExternalNameHelper cr))) = (a, None)"
    and "sa_description a = Description cr"
  shows "\<exists>w'. Reconcile w (ServiceAccountCR cr)
             = (next_kube_fault w,
                ServiceAccountCR (cr\<lparr>Conditions := SetConditions Available (Conditions cr)\<rparr>), w')
           \<and> Observe w (ServiceAccountCR cr)
             = ((case next_kube_fault w of
                   None \<Rightarrow> Inr \<lparr>ResourceExists = True, ResourceUpToDate = True\<rparr>
                 | Some e \<Rightarrow> Inl e),
                ServiceAccountCR (cr\<lparr>Conditions := SetConditions Available (Conditions cr)\<rparr>), w')
           \<and> calls w' = calls w @ [ByNameCall (fst (ExternalNameHelper cr))]
           \<and> accounts w' = accounts w \<and> lookup_fault w' = lookup_fault w
           \<and> kube_faults w' = tl (kube_faults w)
           \<and> (next_kube_fault w = None \<longrightarrow>
                Conditions (stored w') = SetConditions Available (Conditions cr))"
proof -
  let ?n = "fst (ExternalNameHelper cr)"
  obtain w1 where l: "ServiceAccountByName w ?n = ((a, None), w1)"
    using assms(1) by (metis prod.collapse)
  have w1: "w1 = w\<lparr>calls := calls w @ [ByNameCall ?n]\<rparr>"
    using l ByName_world [of w ?n] by simp
  show ?thesis
    using assms(2) l w1
    by (cases "next_kube_fault w")
      (simp_all add: Reconcile_def Observe_def ObserveCreateResource_def
          ObserveUpdateResource_def kube_Status_Update_def next_kube_fault_def Let_def)
qed

text \<open>
  \<^verbatim>\<open>Create\<close> on a resource without an external name, with a remote API that
  accepts the create and a store that accepts the writes: the identifier of the
  created object is set in memory and then replaced by the stored one when
  \<^verbatim>\<open>c.kube.Update\<close> writes the server's copy back, before the status is written.
\<close>

lemma Create_without_external_name:
  assumes "ExternalName cr = []" and "create_reply w = Inr rid" and "kube_faults w = []"
  shows "Create w (ServiceAccountCR cr) =
           (None,
            ServiceAccountCR (cr\<lparr>Conditions := SetConditions Creating (Conditions cr),
               ExternalName := Name cr\<rparr>),
            w\<lparr>calls := calls w @ [CreateCall (Name cr) (Description cr)],
              accounts := accounts w @
                [\<lparr>sa_id = rid, sa_name = Name cr, sa_description = Description cr\<rparr>],
              stored := \<lparr>Name = Name cr, ExternalName = Name cr,
                ProviderConfigRef = ProviderConfigRef cr, Description = Description cr,
                AtProviderID = AtProviderID cr,
                Conditions = SetConditions Creating (Conditions cr)\<rparr>\<rparr>)"
  using assms
  by (simp add: Create_def Create_lookup_def Create_remote_def Create_persist_def
        ExternalNameHelper_def SetExternalName_def ServiceAccountCreate_def
        kube_defs Let_def)

section \<open>Properties\<close>

text \<open>
  C1. A tick on a resource that already has an external name, whose lookup
  fails with \<open>NotFound\<close>, returns the error \<open>RemoteObjectMissing\<close>. The lookup is
  the only remote call of the tick: no create call is made, and the resource and
  the store are as before.
\<close>

theorem out_of_band_deletion_is_surfaced:
  assumes "ExternalName cr \<noteq> []"
    and "snd (fst (ServiceAccountByName w (ExternalName cr))) = Some NotFound"
  shows "Reconcile w (ServiceAccountCR cr) =
           (Some RemoteObjectMissing, ServiceAccountCR cr,
            w\<lparr>calls := calls w @ [ByNameCall (ExternalName cr)]\<rparr>)
         \<and> filter is_create (calls (snd (snd (Reconcile w (ServiceAccountCR cr)))))
             = filter is_create (calls w)"
proof -
  obtain obs err w1 where l: "ServiceAccountByName w (ExternalName cr) = ((obs, err), w1)"
    by (metis prod.exhaust)
  from l assms(2) have e: "err = Some NotFound" by simp
  from l ByName_world [of w "ExternalName cr"]
  have w1: "w1 = w\<lparr>calls := calls w @ [ByNameCall (ExternalName cr)]\<rparr>" by simp
  have "Reconcile w (ServiceAccountCR cr) = (Some RemoteObjectMissing, ServiceAccountCR cr, w1)"
    using assms(1) l e
    by (simp add: Reconcile_def Observe_def ExternalNameHelper_def ObserveCreateResource_def)
  then show ?thesis using w1 by simp
qed

text \<open>
  C1 at the scenario, the resource now carrying the external name \<^verbatim>\<open>svc-1\<close>.
\<close>

theorem out_of_band_deletion_is_surfaced_witness:
  "ExternalName (example_cr\<lparr>ExternalName := ''svc-1''\<rparr>) \<noteq> []
   \<and> snd (fst (ServiceAccountByName example_world ''svc-1'')) = Some NotFound
   \<and> fst (Reconcile example_world (ServiceAccountCR (example_cr\<lparr>ExternalName := ''svc-1''\<rparr>)))
       = Some RemoteObjectMissing
   \<and> calls (snd (snd (Reconcile example_world
          (ServiceAccountCR (example_cr\<lparr>ExternalName := ''svc-1''\<rparr>)))))
       = [ByNameCall ''svc-1'']"
proof -
  let ?cr = "example_cr\<lparr>ExternalName := ''svc-1''\<rparr>"
  have h1: "ExternalName ?cr \<noteq> []" by simp
  have h2: "snd (fst (ServiceAccountByName example_world (ExternalName ?cr))) = Some NotFound"
    by (simp add: example_defs client_defs)
  have c0: "calls example_world = []" by (simp add: example_defs)
  show ?thesis
    using out_of_band_deletion_is_surfaced [OF h1 h2] h1 h2 c0 by simp
qed

text \<open>
  C2, as stated, fails. The resource has no external name and the lookup finds
  a remote account of its name, with the identifier \<^verbatim>\<open>sa-7\<close>. The tick makes no
  create call, but nothing adopts the identifier: \<^verbatim>\<open>Observe\<close> never writes
  \<open>AtProviderID\<close>, which is empty after the tick, in memory and in the store. The
  only code that adopts an identifier is the import block of \<^verbatim>\<open>Create\<close>, which
  runs when the external name exists: \<^verbatim>\<open>Create\<close> on this resource makes no lookup,
  calls the remote create and leaves \<open>AtProviderID\<close> empty as well.
\<close>

theorem found_object_is_not_adopted_counterexample:
  "ExternalName example_cr = []
   \<and> fst (ServiceAccountByName (example_world\<lparr>accounts := [example_account]\<rparr>)
            (Name example_cr)) = (example_account, None)
   \<and> sa_id example_account = ''sa-7''
   \<and> Reconcile (example_world\<lparr>accounts := [example_account]\<rparr>) (ServiceAccountCR example_cr)
       = (None, ServiceAccountCR (example_cr\<lparr>Conditions := [Available]\<rparr>),
          example_world\<lparr>accounts := [example_account], calls := [ByNameCall ''svc-1''],
            stored := example_cr\<lparr>Conditions := [Available]\<rparr>\<rparr>)
   \<and> AtProviderID (example_cr\<lparr>Conditions := [Available]\<rparr>) = []
   \<and> calls (snd (snd (Create (example_world\<lparr>accounts := [example_account]\<rparr>)
            (ServiceAccountCR example_cr))))
       = [CreateCall ''svc-1'' ''payments'']
   \<and> AtProviderID (stored (snd (snd (Create (example_world\<lparr>accounts := [example_account]\<rparr>)
            (ServiceAccountCR example_cr))))) = []"
  by (simp add: example_defs op_defs helper_defs client_defs kube_defs SetConditions_def
        Available_def Creating_def Let_def)

text \<open>
  C2, amended. In a tick on a resource without an external name whose lookup
  succeeds, \<^verbatim>\<open>Observe\<close> does not report the resource as missing, no create call
  is made and the remote accounts keep their identifiers: no remote object is
  added.
\<close>

theorem found_object_is_not_created:
  assumes "ExternalName cr = []"
    and "fst (ServiceAccountByName w (Name cr)) = (a, None)"
  shows "filter is_create (calls (snd (snd (Reconcile w (ServiceAccountCR cr)))))
           = filter is_create (calls w)
         \<and> map sa_id (accounts (snd (snd (Reconcile w (ServiceAccountCR cr)))))
           = map sa_id (accounts w)
         \<and> fst (Observe w (ServiceAccountCR cr))
             \<noteq> Inr \<lparr>ResourceExists = False, ResourceUpToDate = u\<rparr>"
proof -
  obtain w1 where l: "ServiceAccountByName w (Name cr) = ((a, None), w1)"
    using assms(2) by (metis prod.collapse)
  have w1: "w1 = w\<lparr>calls := calls w @ [ByNameCall (Name cr)]\<rparr>"
    using l ByName_world [of w "Name cr"] by simp
  have ids: "map sa_id (map (\<lambda>x. if sa_id x = i then x\<lparr>sa_description := d\<rparr> else x) xs)
      = map sa_id xs" for i d and xs :: "snapshot list"
    by (induction xs) simp_all
  show ?thesis
  proof (cases "ObserveUpdateResource cr a")
    case True
    have o: "Observe w (ServiceAccountCR cr)
        = (Inr \<lparr>ResourceExists = True, ResourceUpToDate = False\<rparr>, ServiceAccountCR cr, w1)"
      using assms(1) l True
      by (simp add: Observe_def ExternalNameHelper_def ObserveCreateResource_def)
    show ?thesis
      using o w1 ids
      by (cases "update_fault w")
        (simp_all add: Reconcile_def Update_def ServiceAccountUpdate_def Let_def)
  next
    case False
    have nk: "next_kube_fault w1 = next_kube_fault w"
      using w1 by (simp add: next_kube_fault_def)
    obtain r w2 where ks: "kube_Status_Update w1
        (cr\<lparr>Conditions := SetConditions Available (Conditions cr)\<rparr>) = (r, w2)"
      by (metis prod.exhaust)
    have w2: "calls w2 = calls w1 \<and> accounts w2 = accounts w1"
      using ks by (cases "next_kube_fault w1") (auto simp: kube_Status_Update_def Let_def)
    show ?thesis
      using assms(1) l False w1 w2 ks
      by (cases r)
        (simp_all add: Reconcile_def Observe_def ExternalNameHelper_def
          ObserveCreateResource_def Let_def)
  qed
qed

text \<open>
  C2, amended, at the scenario with the remote account.
\<close>

theorem found_object_is_not_created_witness:
  "ExternalName example_cr = []
   \<and> fst (ServiceAccountByName (example_world\<lparr>accounts := [example_account]\<rparr>) (Name example_cr))
       = (example_account, None)
   \<and> filter is_create (calls (snd (snd (Reconcile (example_world\<lparr>accounts := [example_account]\<rparr>)
          (ServiceAccountCR example_cr))))) = []
   \<and> map sa_id (accounts (snd (snd (Reconcile (example_world\<lparr>accounts := [example_account]\<rparr>)
          (ServiceAccountCR example_cr))))) = [''sa-7'']"
proof -
  let ?w = "example_world\<lparr>accounts := [example_account]\<rparr>"
  have h1: "ExternalName example_cr = []" by (simp add: example_defs)
  have h2: "fst (ServiceAccountByName ?w (Name example_cr)) = (example_account, None)"
    by (simp add: example_defs client_defs)
  have c0: "calls ?w = []" "map sa_id (accounts ?w) = [''sa-7'']" by (simp_all add: example_defs)
  show ?thesis
    using found_object_is_not_created [OF h1 h2] h1 h2 c0 by simp
qed

text \<open>
  C3 fails on the code at the scenario of section 8: no external name, the
  lookup fails with \<open>NotFound\<close>, the remote API accepts the create and returns the
  identifier \<^verbatim>\<open>sa-1001\<close>, and the store accepts every write. The tick makes exactly
  one create call and the external name is set and stored, but \<open>AtProviderID\<close> is
  empty after the tick, in memory and in the store: \<^verbatim>\<open>Create\<close> sets it, and
  \<^verbatim>\<open>c.kube.Update\<close> overwrites the status in memory with the stored one before
  \<^verbatim>\<open>c.kube.Status().Update\<close> writes it.
\<close>

theorem created_identifier_is_lost:
  "ExternalName example_cr = []
   \<and> snd (fst (ServiceAccountByName example_world (Name example_cr))) = Some NotFound
   \<and> create_reply example_world = Inr ''sa-1001''
   \<and> kube_faults example_world = []
   \<and> Reconcile example_world (ServiceAccountCR example_cr)
       = (None,
          ServiceAccountCR \<lparr>Name = ''svc-1'', ExternalName = ''svc-1'',
            ProviderConfigRef = ''default'', Description = ''payments'', AtProviderID = [],
            Conditions = [Creating]\<rparr>,
          example_world\<lparr>calls := [ByNameCall ''svc-1'', CreateCall ''svc-1'' ''payments''],
            accounts := [\<lparr>sa_id = ''sa-1001'', sa_name = ''svc-1'', sa_description = ''payments''\<rparr>],
            stored := \<lparr>Name = ''svc-1'', ExternalName = ''svc-1'',
              ProviderConfigRef = ''default'', Description = ''payments'', AtProviderID = [],
              Conditions = [Creating]\<rparr>\<rparr>)"
proof -
  have o: "Observe example_world (ServiceAccountCR example_cr)
      = (Inr \<lparr>ResourceExists = False, ResourceUpToDate = False\<rparr>, ServiceAccountCR example_cr,
         example_world\<lparr>calls := [ByNameCall ''svc-1'']\<rparr>)"
    by (simp add: example_defs Observe_def helper_defs client_defs)
  have c: "Create (example_world\<lparr>calls := [ByNameCall ''svc-1'']\<rparr>) (ServiceAccountCR example_cr)
      = (None,
          ServiceAccountCR \<lparr>Name = ''svc-1'', ExternalName = ''svc-1'',
            ProviderConfigRef = ''default'', Description = ''payments'', AtProviderID = [],
            Conditions = [Creating]\<rparr>,
          example_world\<lparr>calls := [ByNameCall ''svc-1'', CreateCall ''svc-1'' ''payments''],
            accounts := [\<lparr>sa_id = ''sa-1001'', sa_name = ''svc-1'', sa_description = ''payments''\<rparr>],
            stored := \<lparr>Name = ''svc-1'', ExternalName = ''svc-1'',
              ProviderConfigRef = ''default'', Description = ''payments'', AtProviderID = [],
              Conditions = [Creating]\<rparr>\<rparr>)"
    using Create_without_external_name
      [of example_cr "example_world\<lparr>calls := [ByNameCall ''svc-1'']\<rparr>" "''sa-1001''"]
    by (simp add: example_defs SetConditions_def)
  show ?thesis
    using o c by (simp add: Reconcile_def) (simp add: example_defs client_defs)
qed

text \<open>
  C4. For a resource whose description equals the one of the snapshot that the
  lookup returns, \<open>n\<close> ticks in a row make no create, update or delete call and
  leave the remote accounts as they are. When the store accepts the writes,
  every tick succeeds, the observation reports the resource as existing and up to
  date, and from the first tick on the condition of type Ready is \<open>Available\<close>,
  in memory and in the store.
\<close>

theorem matching_resource_is_left_alone:
  assumes "fst (ServiceAccountByName w (fst (ExternalNameHelper cr))) = (a, None)"
    and "sa_description a = Description cr"
  shows "filter is_mutation (calls (snd (snd (Reconcile_n n w (ServiceAccountCR cr)))))
             = filter is_mutation (calls w)
         \<and> accounts (snd (snd (Reconcile_n n w (ServiceAccountCR cr)))) = accounts w
         \<and> (kube_faults w = [] \<longrightarrow>
              fst (Reconcile_n n w (ServiceAccountCR cr)) = replicate n None
              \<and> fst (Observe (snd (snd (Reconcile_n n w (ServiceAccountCR cr))))
                       (fst (snd (Reconcile_n n w (ServiceAccountCR cr)))))
                  = Inr \<lparr>ResourceExists = True, ResourceUpToDate = True\<rparr>
              \<and> (0 < n \<longrightarrow>
                   Ready (fst (snd (Reconcile_n n w (ServiceAccountCR cr)))) = Some Available
                   \<and> GetCondition TypeReady
                        (Conditions (stored (snd (snd (Reconcile_n n w (ServiceAccountCR cr))))))
                       = Some Available))"
  using assms
proof (induction n arbitrary: w cr)
  case 0
  from found_tick [OF 0] obtain w1 where
    o: "Observe w (ServiceAccountCR cr)
        = ((case next_kube_fault w of
              None \<Rightarrow> Inr \<lparr>ResourceExists = True, ResourceUpToDate = True\<rparr>
            | Some e \<Rightarrow> Inl e),
           ServiceAccountCR (cr\<lparr>Conditions := SetConditions Available (Conditions cr)\<rparr>), w1)"
    by blast
  have "kube_faults w = [] \<Longrightarrow> next_kube_fault w = None"
    by (simp add: next_kube_fault_def)
  with o show ?case by simp
next
  case (Suc n)
  let ?cr1 = "cr\<lparr>Conditions := SetConditions Available (Conditions cr)\<rparr>"
  from found_tick [OF Suc.prems] obtain w1 where
    t: "Reconcile w (ServiceAccountCR cr) = (next_kube_fault w, ServiceAccountCR ?cr1, w1)"
    and c: "calls w1 = calls w @ [ByNameCall (fst (ExternalNameHelper cr))]"
    and f: "accounts w1 = accounts w" "lookup_fault w1 = lookup_fault w"
    and k: "kube_faults w1 = tl (kube_faults w)"
    and st: "next_kube_fault w = None \<longrightarrow>
               Conditions (stored w1) = SetConditions Available (Conditions cr)"
    by (elim exE conjE) (rule that)
  have n1: "fst (ExternalNameHelper ?cr1) = fst (ExternalNameHelper cr)"
    by (simp add: ExternalNameHelper_def)
  have a1: "fst (ServiceAccountByName w1 (fst (ExternalNameHelper ?cr1))) = (a, None)"
    using ByName_frame [OF f] Suc.prems(1) n1 by simp
  have a2: "sa_description a = Description ?cr1" using Suc.prems(2) by simp
  note ih = Suc.IH [OF a1 a2]
  have r: "Ready (ServiceAccountCR ?cr1) = Some Available"
    using GetCondition_SetConditions [of Available "Conditions cr"]
    by (simp add: Ready_def Available_def)
  have s: "next_kube_fault w = None \<Longrightarrow>
      GetCondition TypeReady (Conditions (stored w1)) = Some Available"
    using st GetCondition_SetConditions [of Available "Conditions cr"]
    by (simp add: Available_def)
  have m: "filter is_mutation (calls w1) = filter is_mutation (calls w)" using c by simp
  have k0: "kube_faults w = [] \<Longrightarrow> kube_faults w1 = [] \<and> next_kube_fault w = None"
    using k by (simp add: next_kube_fault_def)
  show ?case
  proof (cases "n = 0")
    case True
    with ih t m f r s k0 show ?thesis by (simp add: split_beta)
  next
    case False
    with ih t m f k0 show ?thesis by (simp add: split_beta)
  qed
qed

text \<open>
  C4 at the scenario with the remote account, for two ticks.
\<close>

theorem matching_resource_is_left_alone_witness:
  "fst (ServiceAccountByName (example_world\<lparr>accounts := [example_account]\<rparr>)
         (fst (ExternalNameHelper example_cr))) = (example_account, None)
   \<and> sa_description example_account = Description example_cr
   \<and> kube_faults (example_world\<lparr>accounts := [example_account]\<rparr>) = []
   \<and> fst (Reconcile_n 2 (example_world\<lparr>accounts := [example_account]\<rparr>)
        (ServiceAccountCR example_cr)) = [None, None]
   \<and> filter is_mutation (calls (snd (snd (Reconcile_n 2 (example_world\<lparr>accounts := [example_account]\<rparr>)
        (ServiceAccountCR example_cr))))) = []
   \<and> Ready (fst (snd (Reconcile_n 2 (example_world\<lparr>accounts := [example_account]\<rparr>)
        (ServiceAccountCR example_cr)))) = Some Available"
proof -
  let ?w = "example_world\<lparr>accounts := [example_account]\<rparr>"
  have h1: "fst (ServiceAccountByName ?w (fst (ExternalNameHelper example_cr)))
      = (example_account, None)"
    by (simp add: example_defs client_defs ExternalNameHelper_def)
  have h2: "sa_description example_account = Description example_cr" by (simp add: example_defs)
  have h3: "kube_faults ?w = []" by (simp add: example_defs)
  have c0: "calls ?w = []" by (simp add: example_defs)
  show ?thesis
    using matching_resource_is_left_alone [OF h1 h2, of 2] h1 h2 h3 c0
    by (simp add: numeral_2_eq_2)
qed

text \<open>
  C5, as stated, fails. \<^verbatim>\<open>Create\<close> sets the condition \<open>Creating\<close> and writes the
  status before it calls the remote API: when the create call is rejected, the
  conditions of the resource and of the stored copy are no longer the ones from
  before.
\<close>

theorem rejected_create_leaves_Creating_counterexample:
  "create_reply (example_world\<lparr>create_reply := Inl (New ''rejected'')\<rparr>) = Inl (New ''rejected'')
   \<and> fst (Create (example_world\<lparr>create_reply := Inl (New ''rejected'')\<rparr>)
        (ServiceAccountCR example_cr)) = Some (New ''rejected'')
   \<and> filter is_mutation (calls (snd (snd (Create (example_world\<lparr>create_reply := Inl (New ''rejected'')\<rparr>)
        (ServiceAccountCR example_cr))))) = [CreateCall ''svc-1'' ''payments'']
   \<and> Conditions example_cr = []
   \<and> Conditions (stored (example_world\<lparr>create_reply := Inl (New ''rejected'')\<rparr>)) = []
   \<and> fst (snd (Create (example_world\<lparr>create_reply := Inl (New ''rejected'')\<rparr>)
        (ServiceAccountCR example_cr))) = ServiceAccountCR (example_cr\<lparr>Conditions := [Creating]\<rparr>)
   \<and> Conditions (stored (snd (snd (Create (example_world\<lparr>create_reply := Inl (New ''rejected'')\<rparr>)
        (ServiceAccountCR example_cr))))) = [Creating]"
  by (simp add: example_defs op_defs helper_defs client_defs kube_defs SetConditions_def Let_def)

text \<open>
  C5, amended. When the remote create call is rejected with \<open>e\<close>, \<^verbatim>\<open>Create\<close>
  returns \<open>e\<close> and no later step runs: the external name is not set, nothing
  but the first status write reaches the store, and no remote account is added.
  \<open>AtProviderID\<close> and the external name of the resource are as before; its
  conditions are the ones from before with \<open>Creating\<close> set, in memory and in the
  store.
\<close>

theorem rejected_create_aborts:
  assumes "create_reply w = Inl e"
    and "next_kube_fault w = None"
    and "ExternalName cr = [] \<or> snd (fst (ServiceAccountByName w (ExternalName cr))) = Some NotFound"
  shows "fst (Create w (ServiceAccountCR cr)) = Some e
         \<and> fst (snd (Create w (ServiceAccountCR cr)))
            = ServiceAccountCR (cr\<lparr>Conditions := SetConditions Creating (Conditions cr)\<rparr>)
         \<and> stored (snd (snd (Create w (ServiceAccountCR cr))))
            = (stored w)\<lparr>AtProviderID := AtProviderID cr,
                 Conditions := SetConditions Creating (Conditions cr)\<rparr>
         \<and> kube_faults (snd (snd (Create w (ServiceAccountCR cr)))) = tl (kube_faults w)
         \<and> accounts (snd (snd (Create w (ServiceAccountCR cr)))) = accounts w
         \<and> filter is_mutation (calls (snd (snd (Create w (ServiceAccountCR cr)))))
            = filter is_mutation (calls w)
                @ [CreateCall (fst (ExternalNameHelper cr)) (Description cr)]"
proof -
  let ?cr1 = "cr\<lparr>Conditions := SetConditions Creating (Conditions cr)\<rparr>"
  let ?w1 = "w\<lparr>kube_faults := tl (kube_faults w),
               stored := (stored w)\<lparr>AtProviderID := AtProviderID cr,
                 Conditions := SetConditions Creating (Conditions cr)\<rparr>\<rparr>"
  have s: "kube_Status_Update w ?cr1 = (None, ?w1)"
    using assms(2) by (simp add: kube_Status_Update_def Let_def)
  show ?thesis
  proof (cases "ExternalName cr = []")
    case True
    then show ?thesis
      using s assms(1)
      by (simp add: Create_def Let_def ExternalNameHelper_def Create_lookup_def Create_remote_def
            ServiceAccountCreate_def)
  next
    case False
    with assms(3) have nf: "snd (fst (ServiceAccountByName w (ExternalName cr))) = Some NotFound"
      by simp
    have fr: "fst (ServiceAccountByName ?w1 (ExternalName cr))
                = fst (ServiceAccountByName w (ExternalName cr))"
      by (rule ByName_frame) simp_all
    obtain obs w2 where l: "ServiceAccountByName ?w1 (ExternalName cr) = ((obs, Some NotFound), w2)"
      using nf fr by (metis prod.collapse)
    have w2: "w2 = ?w1\<lparr>calls := calls ?w1 @ [ByNameCall (ExternalName cr)]\<rparr>"
      using l ByName_world [of ?w1 "ExternalName cr"] by simp
    have cl: "Create_lookup ?w1 ?cr1 (ExternalName cr) True = (Inr False, ?cr1, w2)"
      using l by (simp add: Create_lookup_def CreateResourceIsImport_def)
    show ?thesis
      using False s cl w2 assms(1)
      by (simp add: Create_def Let_def ExternalNameHelper_def Create_remote_def
            ServiceAccountCreate_def)
  qed
qed

text \<open>
  C5, amended, at the scenario with a remote API that rejects the create.
\<close>

theorem rejected_create_aborts_witness:
  "create_reply (example_world\<lparr>create_reply := Inl (New ''rejected'')\<rparr>) = Inl (New ''rejected'')
   \<and> next_kube_fault (example_world\<lparr>create_reply := Inl (New ''rejected'')\<rparr>) = None
   \<and> ExternalName example_cr = []
   \<and> fst (Create (example_world\<lparr>create_reply := Inl (New ''rejected'')\<rparr>)
          (ServiceAccountCR example_cr)) = Some (New ''rejected'')
   \<and> fst (snd (Create (example_world\<lparr>create_reply := Inl (New ''rejected'')\<rparr>)
          (ServiceAccountCR example_cr))) = ServiceAccountCR (example_cr\<lparr>Conditions := [Creating]\<rparr>)"
proof -
  let ?w = "example_world\<lparr>create_reply := Inl (New ''rejected'')\<rparr>"
  have h1: "create_reply ?w = Inl (New ''rejected'')" by simp
  have h2: "next_kube_fault ?w = None" by (simp add: example_defs next_kube_fault_def)
  have h3: "ExternalName example_cr = []" by (simp add: example_defs)
  have h3': "ExternalName example_cr = []
      \<or> snd (fst (ServiceAccountByName ?w (ExternalName example_cr))) = Some NotFound"
    using h3 by simp
  show ?thesis
    using rejected_create_aborts [OF h1 h2 h3'] h1 h2 h3
    by (simp add: example_defs SetConditions_def)
qed

text \<open>
  C6, as stated, fails. \<^verbatim>\<open>Create\<close> returns the error of a failed write as it is,
  the way it returns the error of a rejected create. A remote API that rejects
  the create with a timeout, and a store whose write fails with a timeout after
  the create went through, give the same result, although the remote account
  exists in the second case only.
\<close>

theorem store_error_is_returned_as_it_is_counterexample:
  "fst (Create (example_world\<lparr>create_reply := Inl (New ''timeout'')\<rparr>) (ServiceAccountCR example_cr))
     = fst (Create (example_world\<lparr>kube_faults := [None, Some (New ''timeout'')]\<rparr>)
         (ServiceAccountCR example_cr))
   \<and> fst (Create (example_world\<lparr>kube_faults := [None, Some (New ''timeout'')]\<rparr>)
         (ServiceAccountCR example_cr)) = Some (New ''timeout'')
   \<and> accounts (snd (snd (Create (example_world\<lparr>create_reply := Inl (New ''timeout'')\<rparr>)
         (ServiceAccountCR example_cr)))) = []
   \<and> accounts (snd (snd (Create (example_world\<lparr>kube_faults := [None, Some (New ''timeout'')]\<rparr>)
         (ServiceAccountCR example_cr))))
       = [\<lparr>sa_id = ''sa-1001'', sa_name = ''svc-1'', sa_description = ''payments''\<rparr>]"
  by (simp add: example_defs op_defs helper_defs client_defs kube_defs SetConditions_def Let_def)

text \<open>
  C6, amended. When the remote create succeeds and the write of the resource or
  the write of the status that follows fails with \<open>e\<close>, \<^verbatim>\<open>Create\<close> returns \<open>e\<close>
  itself, neither wrapped nor marked; the remote account has been created by one
  create call, and the stored status does not hold its identifier.
\<close>

theorem failed_write_after_create:
  assumes "create_reply w = Inr rid"
    and "ExternalName cr = [] \<or> snd (fst (ServiceAccountByName w (ExternalName cr))) = Some NotFound"
    and "kube_faults w = None # Some e # fs \<or> kube_faults w = None # None # Some e # fs"
  shows "fst (Create w (ServiceAccountCR cr)) = Some e
         \<and> accounts (snd (snd (Create w (ServiceAccountCR cr))))
            = accounts w @ [\<lparr>sa_id = rid, sa_name = fst (ExternalNameHelper cr),
                              sa_description = Description cr\<rparr>]
         \<and> filter is_create (calls (snd (snd (Create w (ServiceAccountCR cr)))))
            = filter is_create (calls w)
                @ [CreateCall (fst (ExternalNameHelper cr)) (Description cr)]
         \<and> AtProviderID (stored (snd (snd (Create w (ServiceAccountCR cr))))) = AtProviderID cr"
proof -
  let ?cr1 = "cr\<lparr>Conditions := SetConditions Creating (Conditions cr)\<rparr>"
  let ?w1 = "w\<lparr>kube_faults := tl (kube_faults w),
               stored := (stored w)\<lparr>AtProviderID := AtProviderID cr,
                 Conditions := SetConditions Creating (Conditions cr)\<rparr>\<rparr>"
  have s: "kube_Status_Update w ?cr1 = (None, ?w1)"
    using assms(3) by (auto simp: kube_Status_Update_def next_kube_fault_def Let_def)
  show ?thesis
  proof (cases "ExternalName cr = []")
    case True
    then show ?thesis
      using s assms(1,3)
      by (auto simp: Create_def Let_def ExternalNameHelper_def Create_lookup_def Create_remote_def
            ServiceAccountCreate_def Create_persist_def kube_defs SetExternalName_def)
  next
    case False
    with assms(2) have nf: "snd (fst (ServiceAccountByName w (ExternalName cr))) = Some NotFound"
      by simp
    have fr: "fst (ServiceAccountByName ?w1 (ExternalName cr))
                = fst (ServiceAccountByName w (ExternalName cr))"
      by (rule ByName_frame) simp_all
    obtain obs w2 where l: "ServiceAccountByName ?w1 (ExternalName cr) = ((obs, Some NotFound), w2)"
      using nf fr by (metis prod.collapse)
    have w2: "w2 = ?w1\<lparr>calls := calls ?w1 @ [ByNameCall (ExternalName cr)]\<rparr>"
      using l ByName_world [of ?w1 "ExternalName cr"] by simp
    have cl: "Create_lookup ?w1 ?cr1 (ExternalName cr) True = (Inr False, ?cr1, w2)"
      using l by (simp add: Create_lookup_def CreateResourceIsImport_def)
    show ?thesis
      using False s cl w2 assms(1,3)
      by (auto simp: Create_def Let_def ExternalNameHelper_def Create_remote_def
            ServiceAccountCreate_def Create_persist_def kube_defs SetExternalName_def)
  qed
qed

text \<open>
  C6, amended, at the scenario with a store whose second write fails.
\<close>

theorem failed_write_after_create_witness:
  "create_reply (example_world\<lparr>kube_faults := [None, Some (New ''timeout'')]\<rparr>) = Inr ''sa-1001''
   \<and> ExternalName example_cr = []
   \<and> kube_faults (example_world\<lparr>kube_faults := [None, Some (New ''timeout'')]\<rparr>)
       = None # Some (New ''timeout'') # []
   \<and> fst (Create (example_world\<lparr>kube_faults := [None, Some (New ''timeout'')]\<rparr>)
        (ServiceAccountCR example_cr)) = Some (New ''timeout'')
   \<and> accounts (snd (snd (Create (example_world\<lparr>kube_faults := [None, Some (New ''timeout'')]\<rparr>)
        (ServiceAccountCR example_cr))))
       = [\<lparr>sa_id = ''sa-1001'', sa_name = ''svc-1'', sa_description = ''payments''\<rparr>]"
proof -
  let ?w = "example_world\<lparr>kube_faults := [None, Some (New ''timeout'')]\<rparr>"
  have h1: "create_reply ?w = Inr ''sa-1001''" by (simp add: example_defs)
  have h2: "ExternalName example_cr = []" by (simp add: example_defs)
  have h2': "ExternalName example_cr = []
      \<or> snd (fst (ServiceAccountByName ?w (ExternalName example_cr))) = Some NotFound"
    using h2 by simp
  have h3: "kube_faults ?w = None # Some (New ''timeout'') # []" by simp
  have h3': "kube_faults ?w = None # Some (New ''timeout'') # []
      \<or> kube_faults ?w = None # None # Some (New ''timeout'') # []"
    using h3 by simp
  show ?thesis
    using failed_write_after_create [OF h1 h2' h3'] h1 h2 h3
    by (simp add: example_defs ExternalNameHelper_def)
qed

text \<open>
  C7. \<^verbatim>\<open>Update\<close> returns the resource as it received it and writes nothing to
  the store: it sets no condition. A tick whose observation reports the resource
  as existing and not up to date leaves the resource, the store and the condition
  of type Ready as they were; only \<^verbatim>\<open>Observe\<close>, on finding nothing to change, sets
  \<open>Available\<close>.
\<close>

theorem Update_sets_no_condition:
  "fst (snd (Update w mg)) = mg
   \<and> stored (snd (snd (Update w mg))) = stored w
   \<and> kube_faults (snd (snd (Update w mg))) = kube_faults w
   \<and> (fst (Observe w mg) = Inr \<lparr>ResourceExists = True, ResourceUpToDate = False\<rparr> \<longrightarrow>
        fst (snd (Reconcile w mg)) = mg
        \<and> stored (snd (snd (Reconcile w mg))) = stored w
        \<and> Ready (fst (snd (Reconcile w mg))) = Ready mg)"
proof -
  have u: "fst (snd (Update w' mg')) = mg' \<and> stored (snd (snd (Update w' mg'))) = stored w'
      \<and> kube_faults (snd (snd (Update w' mg'))) = kube_faults w'" for w' mg'
    by (cases mg')
      (simp_all add: Update_def ServiceAccountUpdate_def Let_def split: option.splits)
  have o: "fst (snd (Observe w mg)) = mg \<and> stored (snd (snd (Observe w mg))) = stored w"
    if a: "fst (Observe w mg) = Inr \<lparr>ResourceExists = True, ResourceUpToDate = False\<rparr>"
  proof (cases mg)
    case (OtherCR k)
    with a show ?thesis by (simp add: Observe_def)
  next
    case (ServiceAccountCR cr)
    obtain obs err w1 where l: "ServiceAccountByName w (fst (ExternalNameHelper cr)) = ((obs, err), w1)"
      by (metis prod.exhaust)
    have w1: "stored w1 = stored w"
      using l ByName_world [of w "fst (ExternalNameHelper cr)"] by simp
    obtain create err2 where oc: "ObserveCreateResource cr err = (create, err2)"
      by (metis prod.exhaust)
    obtain r w2 where ks: "kube_Status_Update w1
        (cr\<lparr>Conditions := SetConditions Available (Conditions cr)\<rparr>) = (r, w2)"
      by (metis prod.exhaust)
    show ?thesis
    proof (cases err2)
      case (Some e)
      with a ServiceAccountCR l oc show ?thesis by (simp add: Observe_def)
    next
      case None
      show ?thesis
      proof (cases create)
        case True
        with a ServiceAccountCR l oc None show ?thesis by (simp add: Observe_def)
      next
        case False
        show ?thesis
        proof (cases "ObserveUpdateResource cr obs")
          case True
          with ServiceAccountCR l oc None False w1 show ?thesis by (simp add: Observe_def)
        next
          case u: False
          with a ServiceAccountCR l oc None False ks show ?thesis
            by (cases r) (simp_all add: Observe_def Let_def)
        qed
      qed
    qed
  qed
  show ?thesis
  proof (intro conjI impI)
    assume a: "fst (Observe w mg) = Inr \<lparr>ResourceExists = True, ResourceUpToDate = False\<rparr>"
    obtain mg1 w1 where ob: "Observe w mg
        = (Inr \<lparr>ResourceExists = True, ResourceUpToDate = False\<rparr>, mg1, w1)"
      using a by (metis prod.collapse)
    from o [OF a] ob have m: "mg1 = mg" "stored w1 = stored w" by simp_all
    have r: "Reconcile w mg = Update w1 mg1" using ob by (simp add: Reconcile_def)
    show "fst (snd (Reconcile w mg)) = mg" using r u [of w1 mg1] m by simp
    show "stored (snd (snd (Reconcile w mg))) = stored w" using r u [of w1 mg1] m by simp
    show "Ready (fst (snd (Reconcile w mg))) = Ready mg" using r u [of w1 mg1] m by simp
  qed (simp_all add: u)
qed

text \<open>
  C7 at the scenario with the external name, the remote account and another declared description.
\<close>

theorem Update_sets_no_condition_witness:
  "fst (Observe (example_world\<lparr>accounts := [example_account]\<rparr>)
         (ServiceAccountCR (example_cr\<lparr>ExternalName := ''svc-1'', Description := ''billing''\<rparr>)))
     = Inr \<lparr>ResourceExists = True, ResourceUpToDate = False\<rparr>
   \<and> fst (snd (Reconcile (example_world\<lparr>accounts := [example_account]\<rparr>)
         (ServiceAccountCR (example_cr\<lparr>ExternalName := ''svc-1'', Description := ''billing''\<rparr>))))
     = ServiceAccountCR (example_cr\<lparr>ExternalName := ''svc-1'', Description := ''billing''\<rparr>)
   \<and> Ready (fst (snd (Reconcile (example_world\<lparr>accounts := [example_account]\<rparr>)
         (ServiceAccountCR (example_cr\<lparr>ExternalName := ''svc-1'', Description := ''billing''\<rparr>)))))
     = None"
proof -
  let ?w = "example_world\<lparr>accounts := [example_account]\<rparr>"
  let ?mg = "ServiceAccountCR (example_cr\<lparr>ExternalName := ''svc-1'', Description := ''billing''\<rparr>)"
  have h: "fst (Observe ?w ?mg) = Inr \<lparr>ResourceExists = True, ResourceUpToDate = False\<rparr>"
    by (simp add: example_defs Observe_def helper_defs client_defs)
  have r: "Ready ?mg = None" by (simp add: example_defs condition_defs)
  show ?thesis
    using Update_sets_no_condition [of ?w ?mg] h r by simp
qed

text \<open>
  C8. The deletion path of a tick is \<^verbatim>\<open>Delete\<close>: it sets the condition
  \<open>Deleting\<close>, writes the status and calls the remote delete. With a remote API
  that injects no delete failure and a store that accepts
  the writes, \<^verbatim>\<open>Delete\<close> succeeds, no remote account of the identifier is left,
  and a second \<^verbatim>\<open>Delete\<close> right after it, whose target is then absent, succeeds
  too. A \<^verbatim>\<open>Delete\<close> of an object that is absent leaves the remote accounts as
  they are.
\<close>

theorem Delete_of_absent_object_succeeds:
  assumes "delete_fault w = None" and "kube_faults w = []"
  shows "fst (Delete w (ServiceAccountCR cr)) = None
    \<and> filter (\<lambda>a. sa_id a = AtProviderID cr) (accounts (snd (snd (Delete w (ServiceAccountCR cr))))) = []
    \<and> fst (Delete (snd (snd (Delete w (ServiceAccountCR cr))))
              (fst (snd (Delete w (ServiceAccountCR cr))))) = None
    \<and> (filter (\<lambda>a. sa_id a = AtProviderID cr) (accounts w) = [] \<longrightarrow>
         accounts (snd (snd (Delete w (ServiceAccountCR cr)))) = accounts w)"
proof -
  have f: "filter (\<lambda>a. sa_id a = i) (filter (\<lambda>a. sa_id a \<noteq> i) xs) = []" for i and xs :: "snapshot list"
    by (induction xs) auto
  have g: "filter (\<lambda>a. sa_id a = i) xs = [] \<Longrightarrow> filter (\<lambda>a. sa_id a \<noteq> i) xs = xs"
    for i and xs :: "snapshot list"
    by (induction xs) (auto split: if_splits)
  show ?thesis
    using assms f g
    by (simp add: Delete_def ServiceAccountDelete_def kube_defs Let_def)
qed

text \<open>
  C8 at the scenario with the remote account, adopted under its identifier.
\<close>

theorem Delete_of_absent_object_succeeds_witness:
  "delete_fault (example_world\<lparr>accounts := [example_account]\<rparr>) = None
   \<and> kube_faults (example_world\<lparr>accounts := [example_account]\<rparr>) = []
   \<and> fst (Delete (example_world\<lparr>accounts := [example_account]\<rparr>)
        (ServiceAccountCR (example_cr\<lparr>ExternalName := ''svc-1'', AtProviderID := ''sa-7''\<rparr>))) = None
   \<and> fst (Delete (snd (snd (Delete (example_world\<lparr>accounts := [example_account]\<rparr>)
              (ServiceAccountCR (example_cr\<lparr>ExternalName := ''svc-1'', AtProviderID := ''sa-7''\<rparr>)))))
        (fst (snd (Delete (example_world\<lparr>accounts := [example_account]\<rparr>)
              (ServiceAccountCR (example_cr\<lparr>ExternalName := ''svc-1'', AtProviderID := ''sa-7''\<rparr>)))))) = None
   \<and> accounts (snd (snd (Delete (example_world\<lparr>accounts := [example_account]\<rparr>)
        (ServiceAccountCR (example_cr\<lparr>ExternalName := ''svc-1'', AtProviderID := ''sa-7''\<rparr>))))) = []"
proof -
  let ?w = "example_world\<lparr>accounts := [example_account]\<rparr>"
  let ?cr = "example_cr\<lparr>ExternalName := ''svc-1'', AtProviderID := ''sa-7''\<rparr>"
  have h1: "delete_fault ?w = None" by (simp add: example_defs)
  have h2: "kube_faults ?w = []" by (simp add: example_defs)
  have a: "accounts (snd (snd (Delete ?w (ServiceAccountCR ?cr)))) = []"
    by (simp add: example_defs Delete_def ServiceAccountDelete_def kube_defs Let_def)
  show ?thesis
    using Delete_of_absent_object_succeeds [OF h1 h2, of ?cr] h1 h2 a by simp
qed

text \<open>
  C9. Once the credentials are resolved, \<^verbatim>\<open>Connect\<close> with
  \<^verbatim>\<open>createAndConvertClientFunc\<close> fails with "invalid client credentials" (wrapped
  as every error of \<^verbatim>\<open>newServiceFn\<close> is) before any authentication exactly when the
  credentials do not split on the colon into two parts, that is, when they do not
  hold exactly one colon. When they split into two parts, there is one
  authentication call, with the first part as identity and the second as secret,
  and its answer decides the result. Unless the authentication itself answers
  with that same error, the error alone tells the two cases apart.
\<close>

theorem credentials_split_in_two:
  assumes "newServiceFn c = createAndConvertClientFunc"
    and "Track c (ServiceAccountCR cr) = None"
    and "kube_Get c (ProviderConfigRef cr) = Inr pc"
    and "CommonCredentialExtractor c (Credentials pc) = Inr creds"
  shows "((fst (Connect c w (ServiceAccountCR cr)) = Inl (Wrap (New errAuthCredentials) errNewClient)
           \<and> calls (snd (Connect c w (ServiceAccountCR cr))) = calls w)
          \<longleftrightarrow> length (strings_Split creds (CHR '':'')) \<noteq> 2)
    \<and> (length (strings_Split creds (CHR '':'')) = 2 \<longrightarrow>
         calls (snd (Connect c w (ServiceAccountCR cr)))
           = calls w @ [AuthenticateCall (strings_Split creds (CHR '':'') ! 0)
                                         (strings_Split creds (CHR '':'') ! 1)]
         \<and> (fst (Connect c w (ServiceAccountCR cr)) =
              (case auth_reply w (strings_Split creds (CHR '':'') ! 0)
                                 (strings_Split creds (CHR '':'') ! 1) of
                 Some authErr \<Rightarrow> Inl (Wrap authErr errNewClient)
               | None \<Rightarrow> Inr \<lparr>svcAPICredentials =
                   (case find (\<lambda>v. Identifier v = SchemeIdentifier c) (pcAPICredentials pc) of
                      None \<Rightarrow> zero_APICredentials | Some v \<Rightarrow> v)\<rparr>)))
    \<and> (auth_reply w (strings_Split creds (CHR '':'') ! 0) (strings_Split creds (CHR '':'') ! 1)
          \<noteq> Some (New errAuthCredentials) \<longrightarrow>
        (fst (Connect c w (ServiceAccountCR cr)) = Inl (Wrap (New errAuthCredentials) errNewClient)
          \<longleftrightarrow> length (strings_Split creds (CHR '':'')) \<noteq> 2))
    \<and> (length (strings_Split creds (CHR '':'')) = 2 \<longleftrightarrow> count_list creds (CHR '':'') = 1)"
  using assms length_strings_Split [of creds "CHR '':''"]
  by (auto simp: Connect_def createAndConvertClientFunc_def Authenticate_def Let_def
        split: option.splits)

text \<open>
  C9 at the scenario, with credentials that hold one colon.
\<close>

theorem credentials_split_in_two_witness:
  "newServiceFn example_connector = createAndConvertClientFunc
   \<and> Track example_connector (ServiceAccountCR example_cr) = None
   \<and> kube_Get example_connector (ProviderConfigRef example_cr)
       = Inr \<lparr>Credentials = ''creds'', pcAPICredentials = []\<rparr>
   \<and> CommonCredentialExtractor example_connector ''creds'' = Inr ''user@example.com:hunter2''
   \<and> strings_Split ''user@example.com:hunter2'' (CHR '':'') = [''user@example.com'', ''hunter2'']
   \<and> calls (snd (Connect example_connector example_world (ServiceAccountCR example_cr)))
       = [AuthenticateCall ''user@example.com'' ''hunter2'']
   \<and> fst (Connect example_connector example_world (ServiceAccountCR example_cr))
       = Inr \<lparr>svcAPICredentials = zero_APICredentials\<rparr>"
proof -
  let ?pc = "\<lparr>Credentials = ''creds'', pcAPICredentials = []\<rparr>"
  have h1: "newServiceFn example_connector = createAndConvertClientFunc"
    by (simp add: example_connector_def)
  have h2: "Track example_connector (ServiceAccountCR example_cr) = None"
    by (simp add: example_connector_def)
  have h3: "kube_Get example_connector (ProviderConfigRef example_cr) = Inr ?pc"
    by (simp add: example_connector_def)
  have h4: "CommonCredentialExtractor example_connector (Credentials ?pc)
      = Inr ''user@example.com:hunter2''"
    by (simp add: example_connector_def)
  have s: "strings_Split ''user@example.com:hunter2'' (CHR '':'') = [''user@example.com'', ''hunter2'']"
    by simp
  have a: "auth_reply example_world ''user@example.com'' ''hunter2'' = None"
    "calls example_world = []"
    by (simp_all add: example_defs)
  show ?thesis
    using credentials_split_in_two [OF h1 h2 h3 h4, of example_world] h1 h2 h3 h4 s a
    by simp
qed

text \<open>
  C10. A managed resource that is not a ServiceAccount makes each of Connect,
  Observe, Create, Update and Delete return the error "managed resource is not a
  ServiceAccount custom resource" at once: the world (remote accounts, call log,
  Kubernetes store) and the resource come back as they went in.
\<close>

theorem not_my_type_is_refused:
  "Connect c w (OtherCR k) = (Inl (New errNotMyType), w)
   \<and> Observe w (OtherCR k) = (Inl (New errNotMyType), OtherCR k, w)
   \<and> Create w (OtherCR k) = (Some (New errNotMyType), OtherCR k, w)
   \<and> Update w (OtherCR k) = (Some (New errNotMyType), OtherCR k, w)
   \<and> Delete w (OtherCR k) = (Some (New errNotMyType), OtherCR k, w)
   \<and> errNotMyType = ''managed resource is not a ServiceAccount custom resource''"
  by (simp add: Connect_def Observe_def Create_def Update_def Delete_def errNotMyType_def)

end
